theory Spec2Isabelle
  imports Main
begin

section \<open>Python values\<close>

text \<open>
  The objects the recipe code handles dynamically: the result of decoding a recipe
  document, the values of an \<^verbatim>\<open>Enum\<close>. Dictionaries are association lists with
  string keys, read with \<open>map_of\<close>.
\<close>

datatype pyobj =
    PNone
  | PBool bool
  | PInt int
  | PStr string
  | PList "pyobj list"
  | PDict "(string \<times> pyobj) list"

text \<open>
  The exceptions of \<^verbatim>\<open>cloud_autopkg_runner.exceptions\<close> that \<^verbatim>\<open>recipe.py\<close> raises, the
  built-in ones that subscripting raises, and the classes raised by the libraries and
  collaborators the module calls (\<^verbatim>\<open>plistlib.InvalidFileException\<close>,
  \<^verbatim>\<open>xml.parsers.expat.ExpatError\<close>, \<^verbatim>\<open>yaml.YAMLError\<close> with its subclasses, and any
  other class by its name).
\<close>

type_synonym path = "string list"

datatype exn =
    RecipeLookupException string
  | RecipeFormatException string
  | RecipeInputException path
  | InvalidPlistContents path
  | InvalidYamlContents path
  | KeyError string
  | TypeError
  | InvalidFileException
  | ExpatError
  | YAMLError
  | OtherError string

text \<open>Python's \<^verbatim>\<open>==\<close> on the values an enumeration is given: \<^verbatim>\<open>bool\<close> is a
  subclass of \<^verbatim>\<open>int\<close>, so \<^verbatim>\<open>True == 1\<close> and \<^verbatim>\<open>False == 0\<close> (and their hashes agree).\<close>

fun py_num :: "pyobj \<Rightarrow> int option" where
  "py_num (PBool b) = Some (if b then 1 else 0)"
| "py_num (PInt i) = Some i"
| "py_num v = None"

definition py_eq :: "pyobj \<Rightarrow> pyobj \<Rightarrow> bool" where
  "py_eq a b =
     (case (py_num a, py_num b) of
        (Some x, Some y) \<Rightarrow> x = y
      | (None, None) \<Rightarrow> a = b
      | _ \<Rightarrow> False)"

text \<open>\<^verbatim>\<open>obj[key]\<close> with a string key: \<^verbatim>\<open>KeyError\<close> from a dictionary without the key,
  \<^verbatim>\<open>TypeError\<close> from a value that is no dictionary.\<close>

fun py_getitem :: "pyobj \<Rightarrow> string \<Rightarrow> exn + pyobj" where
  "py_getitem (PDict d) k = (case map_of d k of None \<Rightarrow> Inl (KeyError k) | Some v \<Rightarrow> Inr v)"
| "py_getitem v k = Inl TypeError"

section \<open>Enumerations\<close>

text \<open>
  A class body of \<^verbatim>\<open>enum.Enum\<close> is a list of names with their right-hand sides, processed
  in order. \<^verbatim>\<open>auto()\<close> takes \<^verbatim>\<open>_generate_next_value_\<close>: \<open>1\<close> when no value was
  assigned before, one more than the largest otherwise. A name whose value equals
  (\<^verbatim>\<open>==\<close>) the value of a member defined earlier becomes an alias: it denotes that
  earlier member, and no new member is made.
\<close>

datatype enum_rhs = auto | Val pyobj

datatype enum_member = Member (member_name: string) (member_value: pyobj)

definition generate_next_value :: "pyobj list \<Rightarrow> pyobj" where
  "generate_next_value last_values =
     (if last_values = [] then PInt 1
      else PInt (Max (set (map (\<lambda>v. case py_num v of Some i \<Rightarrow> i | None \<Rightarrow> 0) last_values)) + 1))"

fun enum_define :: "(string \<times> enum_rhs) list \<Rightarrow> enum_member list \<Rightarrow> (string \<times> enum_member) list" where
  "enum_define [] members = []"
| "enum_define ((n, rhs) # rest) members =
     (let v = (case rhs of auto \<Rightarrow> generate_next_value (map member_value members) | Val x \<Rightarrow> x)
      in case find (\<lambda>m. py_eq (member_value m) v) members of
           Some m \<Rightarrow> (n, m) # enum_define rest members
         | None \<Rightarrow> (n, Member n v) # enum_define rest (members @ [Member n v]))"

text \<open>
  \<^verbatim>\<open>class TrustInfoVerificationState(Enum): UNTESTED = auto(); FAILED = False; TRUSTED = True\<close>
\<close>

definition TrustInfoVerificationState :: "(string \<times> enum_member) list" where
  "TrustInfoVerificationState =
     enum_define [(''UNTESTED'', auto), (''FAILED'', Val (PBool False)), (''TRUSTED'', Val (PBool True))] []"

definition enum_attr :: "(string \<times> enum_member) list \<Rightarrow> string \<Rightarrow> enum_member" where
  "enum_attr cls n = (case map_of cls n of Some m \<Rightarrow> m | None \<Rightarrow> Member [] PNone)"

definition UNTESTED :: enum_member where
  "UNTESTED = enum_attr TrustInfoVerificationState ''UNTESTED''"

definition FAILED :: enum_member where
  "FAILED = enum_attr TrustInfoVerificationState ''FAILED''"

definition TRUSTED :: enum_member where
  "TRUSTED = enum_attr TrustInfoVerificationState ''TRUSTED''"

datatype RecipeFormat = YAML | PLIST

section \<open>Paths\<close>

text \<open>
  A \<^verbatim>\<open>pathlib.Path\<close> is the list of its parts. \<open>p / name\<close> appends one part;
  \<^verbatim>\<open>name\<close>, \<^verbatim>\<open>parent\<close>, \<^verbatim>\<open>suffix\<close>, \<^verbatim>\<open>stem\<close> and \<^verbatim>\<open>with_stem\<close> follow pathlib: the
  suffix starts at the last dot of the name when that dot is neither its first nor its
  last character.
\<close>

definition path_name :: "path \<Rightarrow> string" where
  "path_name p = (if p = [] then [] else last p)"

definition parent :: "path \<Rightarrow> path" where
  "parent p = butlast p"

fun join_parts :: "string list \<Rightarrow> string" where
  "join_parts [] = []"
| "join_parts [c] = c"
| "join_parts (c # cs) = c @ ''/'' @ join_parts cs"

definition path_str :: "path \<Rightarrow> string" where
  "path_str p =
     (case p of
        [] \<Rightarrow> ''.''
      | c # cs \<Rightarrow> if c = ''/'' then ''/'' @ join_parts cs else join_parts (c # cs))"

fun rfind :: "char \<Rightarrow> string \<Rightarrow> nat option" where
  "rfind c [] = None"
| "rfind c (x # xs) =
     (case rfind c xs of
        Some i \<Rightarrow> Some (Suc i)
      | None \<Rightarrow> if x = c then Some 0 else None)"

definition suffix :: "path \<Rightarrow> string" where
  "suffix p =
     (let name = path_name p
      in case rfind CHR ''.'' name of
           Some i \<Rightarrow> if 0 < i \<and> i + 1 < length name then drop i name else []
         | None \<Rightarrow> [])"

definition stem :: "path \<Rightarrow> string" where
  "stem p =
     (let name = path_name p
      in case rfind CHR ''.'' name of
           Some i \<Rightarrow> if 0 < i \<and> i + 1 < length name then take i name else name
         | None \<Rightarrow> name)"

definition with_name :: "path \<Rightarrow> string \<Rightarrow> path" where
  "with_name p n = butlast p @ [n]"

definition with_stem :: "path \<Rightarrow> string \<Rightarrow> path" where
  "with_stem p s = with_name p (s @ suffix p)"

definition endswith :: "string \<Rightarrow> string \<Rightarrow> bool" where
  "endswith s suf = (length suf \<le> length s \<and> drop (length s - length suf) s = suf)"

section \<open>Settings\<close>

record SettingsObj =
  cache_file :: path
  log_file :: "path option"
  max_concurrency :: int
  report_dir :: path
  verbosity_level :: int

definition verbosity_int :: "SettingsObj \<Rightarrow> int \<Rightarrow> int" where
  "verbosity_int s delta =
     (let level = verbosity_level s + delta in if level \<le> 0 then 0 else level)"

definition verbosity_str :: "SettingsObj \<Rightarrow> int \<Rightarrow> string" where
  "verbosity_str s delta =
     (let level = verbosity_level s + delta
      in if level \<le> 0 then [] else ''-'' @ replicate (nat level) CHR ''v'')"

section \<open>The file system, the outside world and the collaborators\<close>

text \<open>
  The file system is a finite table from paths to nodes; the current directory (no
  parts) and the root always exist. Everything else outside the process (the clock,
  running subprocesses, extended attributes) is an opaque state \<open>'x\<close>.
\<close>

datatype node = Dir | File string

type_synonym fs = "(path \<times> node) list"

definition lookup :: "fs \<Rightarrow> path \<Rightarrow> node option" where
  "lookup f p = (if p = [] \<or> p = [''/''] then Some Dir else map_of f p)"

definition path_exists :: "fs \<Rightarrow> path \<Rightarrow> bool" where
  "path_exists f p = (lookup f p \<noteq> None)"

definition read_text :: "fs \<Rightarrow> path \<Rightarrow> exn + string" where
  "read_text f p =
     (case lookup f p of
        Some (File s) \<Rightarrow> Inr s
      | Some Dir \<Rightarrow> Inl (OtherError ''IsADirectoryError'')
      | None \<Rightarrow> Inl (OtherError ''FileNotFoundError''))"

text \<open>\<^verbatim>\<open>Path.mkdir(parents=True, exist_ok=True)\<close>: an existing directory is accepted, an
  existing file is an error, missing ancestors are created first.\<close>

function mkdir :: "fs \<Rightarrow> path \<Rightarrow> exn + fs" where
  "mkdir f p =
     (case lookup f p of
        Some Dir \<Rightarrow> Inr f
      | Some (File s) \<Rightarrow> Inl (OtherError ''FileExistsError'')
      | None \<Rightarrow>
          (case lookup f (parent p) of
             Some (File s) \<Rightarrow> Inl (OtherError ''NotADirectoryError'')
           | Some Dir \<Rightarrow> Inr (f @ [(p, Dir)])
           | None \<Rightarrow>
               (case mkdir f (parent p) of
                  Inl e \<Rightarrow> Inl e
                | Inr f' \<Rightarrow> Inr (f' @ [(p, Dir)]))))"
  by pat_completeness auto
termination
proof (relation "measure (\<lambda>(f, p). length p)")
  show "wf (measure (\<lambda>(f, p). length p))" by simp
next
  fix f :: fs and p :: path
  assume "lookup f p = None"
  then have "p \<noteq> []" by (auto simp: lookup_def split: if_splits)
  then show "((f, parent p), (f, p)) \<in> measure (\<lambda>(f, p). length p)"
    by (simp add: parent_def)
qed

record ConsolidatedReport =
  failed_items :: "pyobj list"
  downloaded_items :: "(string \<times> string) list list"
  pkg_built_items :: "pyobj list"
  munki_imported_items :: "pyobj list"

record DownloadMetadata =
  etag :: "string option"
  file_size :: "int option"
  last_modified :: "string option"
  file_path :: string

record RecipeCache =
  timestamp :: string
  metadata :: "DownloadMetadata list"

text \<open>
  The collaborators of \<^verbatim>\<open>recipe.py\<close> whose code lies in other modules and libraries are
  parameters: the preferences of \<^verbatim>\<open>AutoPkgPrefs\<close>, \<^verbatim>\<open>Path.expanduser\<close> and \<^verbatim>\<open>Path.rglob\<close>
  (the matches in iteration order), the two decoders, the clock in its two renderings,
  \<^verbatim>\<open>shell.run_cmd\<close> (given the command and the \<^verbatim>\<open>check\<close> argument as passed, \<open>None\<close>
  when it is left to its default; it may change the outside), the report handle's
  \<^verbatim>\<open>refresh_contents\<close> followed by \<^verbatim>\<open>consolidate_report\<close>, the two file-attribute
  primitives (reads), and \<^verbatim>\<open>MetadataCacheManager.save\<close>. Each may raise.
\<close>

record 'x env =
  recipe_override_dirs :: "path list"
  recipe_search_dirs :: "path list"
  expanduser :: "path \<Rightarrow> path"
  rglob :: "fs \<Rightarrow> path \<Rightarrow> string \<Rightarrow> path list"
  plistlib_loads :: "string \<Rightarrow> exn + pyobj"
  yaml_safe_load :: "string \<Rightarrow> exn + pyobj"
  utcnow_strftime :: "'x \<Rightarrow> string"
  utcnow_str :: "'x \<Rightarrow> string"
  shell_run_cmd :: "string list \<Rightarrow> bool option \<Rightarrow> fs \<times> 'x \<Rightarrow> (exn + int \<times> string \<times> string) \<times> fs \<times> 'x"
  report_compile :: "path \<Rightarrow> fs \<times> 'x \<Rightarrow> exn + ConsolidatedReport"
  get_file_metadata :: "string \<Rightarrow> string \<Rightarrow> fs \<times> 'x \<Rightarrow> exn + string option"
  get_file_size :: "string \<Rightarrow> fs \<times> 'x \<Rightarrow> exn + int option"
  cache_save :: "path \<Rightarrow> string \<Rightarrow> RecipeCache \<Rightarrow> fs \<times> 'x \<Rightarrow> (exn + unit) \<times> fs \<times> 'x"

text \<open>
  The world a recipe acts in: the file system, the opaque outside, the settings
  singleton, and two histories kept for the statements below: the calls that leave the
  process (subprocesses, report compilations, cache saves) in the order they were made,
  and the log records.
\<close>

datatype event =
    RunCmd "string list"
  | CompileReport path
  | CacheSave path string RecipeCache

datatype level = DEBUG | INFO | WARNING | ERROR | EXCEPTION

record 'x world =
  files :: fs
  ext :: 'x
  settings :: SettingsObj
  trace :: "event list"
  logs :: "(level \<times> string \<times> string list) list"

definition log_msg :: "level \<Rightarrow> string \<Rightarrow> string list \<Rightarrow> 'x world \<Rightarrow> 'x world" where
  "log_msg l msg args w = w\<lparr>logs := logs w @ [(l, msg, args)]\<rparr>"

definition run_cmd :: "'x env \<Rightarrow> string list \<Rightarrow> bool option \<Rightarrow> 'x world \<Rightarrow> (exn + int \<times> string \<times> string) \<times> 'x world" where
  "run_cmd E cmd check w =
     (case shell_run_cmd E cmd check (files w, ext w) of
        (res, f', x') \<Rightarrow> (res, w\<lparr>files := f', ext := x', trace := trace w @ [RunCmd cmd]\<rparr>))"

definition save :: "'x env \<Rightarrow> path \<Rightarrow> string \<Rightarrow> RecipeCache \<Rightarrow> 'x world \<Rightarrow> (exn + unit) \<times> 'x world" where
  "save E file_path0 recipe_name c w =
     (case cache_save E file_path0 recipe_name c (files w, ext w) of
        (res, f', x') \<Rightarrow>
          (res, w\<lparr>files := f', ext := x', trace := trace w @ [CacheSave file_path0 recipe_name c]\<rparr>))"

text \<open>Modelled from the spec: \<^verbatim>\<open>RecipeReport(report_path)\<close> of \<^verbatim>\<open>recipe_report.py\<close>, which
  is not among the sources. It wraps one report file path; the report file is written by
  the external tool only, never by the core, so constructing the handle leaves the file
  system as it is and the handle is the path.\<close>

definition RecipeReport :: "path \<Rightarrow> path" where
  "RecipeReport report_path = report_path"

section \<open>The recipe\<close>

record Recipe =
  self_name :: string
  self_path :: path
  self_format :: RecipeFormat
  self_contents :: pyobj
  self_trusted :: enum_member
  self_result :: path

definition name :: "Recipe \<Rightarrow> string" where
  "name self = path_name (self_path self)"

definition recipe_identifier :: "Recipe \<Rightarrow> exn + pyobj" where
  "recipe_identifier self = py_getitem (self_contents self) ''Identifier''"

text \<open>\<^verbatim>\<open>input_name\<close>: the \<^verbatim>\<open>try\<close> covers both subscripts, and only \<^verbatim>\<open>KeyError\<close> is
  turned into \<^verbatim>\<open>RecipeInputException\<close>.\<close>

definition input_name :: "Recipe \<Rightarrow> exn + pyobj" where
  "input_name self =
     (case (case py_getitem (self_contents self) ''Input'' of
              Inl e \<Rightarrow> Inl e
            | Inr i \<Rightarrow> py_getitem i ''NAME'') of
        Inl (KeyError k) \<Rightarrow> Inl (RecipeInputException (self_path self))
      | Inl e \<Rightarrow> Inl e
      | Inr v \<Rightarrow> Inr v)"

subsection \<open>Locating the recipe file\<close>

text \<open>The three nested loops of \<^verbatim>\<open>find_recipe\<close>, innermost first: the matches of one
  \<^verbatim>\<open>rglob\<close>, the candidate file names in one directory, the lookup directories.\<close>

fun first_existing :: "fs \<Rightarrow> path list \<Rightarrow> path option" where
  "first_existing f [] = None"
| "first_existing f (recipe_path # rest) =
     (if path_exists f recipe_path then Some recipe_path else first_existing f rest)"

fun search_filenames :: "'x env \<Rightarrow> fs \<Rightarrow> path \<Rightarrow> string list \<Rightarrow> path option" where
  "search_filenames E f p [] = None"
| "search_filenames E f p (filename # rest) =
     (case first_existing f (rglob E f p filename) of
        Some recipe_path \<Rightarrow> Some recipe_path
      | None \<Rightarrow> search_filenames E f p rest)"

fun search_lookup_dirs :: "'x env \<Rightarrow> fs \<Rightarrow> path list \<Rightarrow> string list \<Rightarrow> path option" where
  "search_lookup_dirs E f [] possible_filenames = None"
| "search_lookup_dirs E f (lookup_path # rest) possible_filenames =
     (case search_filenames E f (expanduser E lookup_path) possible_filenames of
        Some recipe_path \<Rightarrow> Some recipe_path
      | None \<Rightarrow> search_lookup_dirs E f rest possible_filenames)"

definition has_recipe_extension :: "string \<Rightarrow> bool" where
  "has_recipe_extension recipe_name =
     (endswith recipe_name ''.recipe'' \<or> endswith recipe_name ''.recipe.plist''
        \<or> endswith recipe_name ''.recipe.yaml'')"

definition find_recipe :: "'x env \<Rightarrow> string \<Rightarrow> fs \<Rightarrow> exn + path" where
  "find_recipe E recipe_name f =
     (let lookup_dirs = recipe_override_dirs E @ recipe_search_dirs E;
          possible_filenames =
            (if has_recipe_extension recipe_name then [recipe_name]
             else [recipe_name @ ''.recipe'', recipe_name @ ''.recipe.plist'',
                   recipe_name @ ''.recipe.yaml''])
      in case search_lookup_dirs E f lookup_dirs possible_filenames of
           Some recipe_path \<Rightarrow> Inr recipe_path
         | None \<Rightarrow> Inl (RecipeLookupException recipe_name))"

subsection \<open>Parsing\<close>

definition format :: "path \<Rightarrow> exn + RecipeFormat" where
  "format p =
     (if suffix p = ''.yaml'' then Inr YAML
      else if suffix p \<in> set [''.plist'', ''.recipe''] then Inr PLIST
      else Inl (RecipeFormatException (suffix p)))"

text \<open>Each decoder's failure is caught by class: \<^verbatim>\<open>except plistlib.InvalidFileException\<close>
  and \<^verbatim>\<open>except yaml.YAMLError\<close>. Any other exception of the decoder passes through.\<close>

definition get_contents_plist :: "'x env \<Rightarrow> path \<Rightarrow> string \<Rightarrow> exn + pyobj" where
  "get_contents_plist E p file_contents =
     (case plistlib_loads E file_contents of
        Inr v \<Rightarrow> Inr v
      | Inl InvalidFileException \<Rightarrow> Inl (InvalidPlistContents p)
      | Inl exc \<Rightarrow> Inl exc)"

definition get_contents_yaml :: "'x env \<Rightarrow> path \<Rightarrow> string \<Rightarrow> exn + pyobj" where
  "get_contents_yaml E p file_contents =
     (case yaml_safe_load E file_contents of
        Inr v \<Rightarrow> Inr v
      | Inl YAMLError \<Rightarrow> Inl (InvalidYamlContents p)
      | Inl exc \<Rightarrow> Inl exc)"

definition get_contents :: "'x env \<Rightarrow> path \<Rightarrow> RecipeFormat \<Rightarrow> fs \<Rightarrow> exn + pyobj" where
  "get_contents E p fmt f =
     (case read_text f p of
        Inl e \<Rightarrow> Inl e
      | Inr file_contents \<Rightarrow>
          if fmt = YAML then get_contents_yaml E p file_contents
          else get_contents_plist E p file_contents)"

subsection \<open>The report path\<close>

text \<open>\<^verbatim>\<open>str(counter)\<close>: the decimal digits of a natural number.\<close>

fun str :: "nat \<Rightarrow> string" where
  "str n = (if n < 10 then [''0123456789'' ! n] else str (n div 10) @ [''0123456789'' ! (n mod 10)])"

declare str.simps [simp del]

lemma str_bound: "n < 10 ^ length (str n)"
proof (induction n rule: str.induct)
  case (1 n)
  show ?case
  proof (cases "n < 10")
    case True
    then show ?thesis by (subst str.simps) simp
  next
    case False
    with 1 have "n div 10 < 10 ^ length (str (n div 10))" by simp
    then have "n < 10 * 10 ^ length (str (n div 10))" by simp
    with False show ?thesis by (subst str.simps) simp
  qed
qed

definition longest_name :: "fs \<Rightarrow> nat" where
  "longest_name f = Max (insert 0 (set (map (\<lambda>e. length (path_name (fst e))) f)))"

lemma longest_name_ge: "map_of f p = Some n \<Longrightarrow> length (path_name p) \<le> longest_name f"
proof -
  assume "map_of f p = Some n"
  then have "(p, n) \<in> set f" by (rule map_of_SomeD)
  then have "length (path_name p) \<in> set (map (\<lambda>e. length (path_name (fst e))) f)"
    by force
  then show ?thesis unfolding longest_name_def by (intro Max_ge) auto
qed

lemma candidate_exists_bound:
  assumes "path_exists f (with_stem original (s @ ''_'' @ str k))"
  shows "k < 10 ^ longest_name f"
proof -
  let ?n = "s @ ''_'' @ str k @ suffix original"
  let ?c = "with_stem original (s @ ''_'' @ str k)"
  have c: "?c = butlast original @ [?n]" by (simp add: with_stem_def with_name_def)
  have "?n \<noteq> ''/''" by (cases s) auto
  then have ne: "?c \<noteq> []" "?c \<noteq> [''/'']" unfolding c by auto
  from assms ne obtain nd where "map_of f ?c = Some nd"
    by (auto simp: path_exists_def lookup_def)
  then have "length (path_name ?c) \<le> longest_name f" by (rule longest_name_ge)
  moreover have "path_name ?c = ?n" unfolding c by (simp add: path_name_def)
  ultimately have "length (str k) \<le> longest_name f" by simp
  then have "(10::nat) ^ length (str k) \<le> 10 ^ longest_name f"
    by (intro power_increasing) auto
  with str_bound [of k] show ?thesis by linarith
qed

text \<open>The \<^verbatim>\<open>while report_path.exists()\<close> loop of the constructor.\<close>

function scan_report_path :: "fs \<Rightarrow> path \<Rightarrow> path \<Rightarrow> nat \<Rightarrow> path" where
  "scan_report_path f original_report_path report_path counter =
     (if path_exists f report_path
      then scan_report_path f original_report_path
             (with_stem original_report_path (stem original_report_path @ ''_'' @ str counter))
             (counter + 1)
      else report_path)"
  by pat_completeness auto
termination
proof (relation "measure (\<lambda>(f, original, report_path, counter).
         if path_exists f report_path then 1 + (10 ^ longest_name f - counter) else 0)")
  show "wf (measure (\<lambda>(f, original, report_path, counter).
         if path_exists f report_path then 1 + (10 ^ longest_name f - counter) else 0))"
    by simp
next
  fix f :: fs and original_report_path report_path :: path and counter :: nat
  assume ex: "path_exists f report_path"
  let ?c = "with_stem original_report_path (stem original_report_path @ ''_'' @ str counter)"
  show "((f, original_report_path, ?c, counter + 1), (f, original_report_path, report_path, counter))
          \<in> measure (\<lambda>(f, original, report_path, counter).
               if path_exists f report_path then 1 + (10 ^ longest_name f - counter) else 0)"
  proof (cases "path_exists f ?c")
    case True
    then have "counter < 10 ^ longest_name f" by (rule candidate_exists_bound)
    with True ex show ?thesis by simp
  next
    case False
    with ex show ?thesis by simp
  qed
qed

declare scan_report_path.simps [simp del]

subsection \<open>The constructor\<close>

definition Recipe_init :: "'x env \<Rightarrow> string \<Rightarrow> path option \<Rightarrow> 'x world \<Rightarrow> (exn + Recipe) \<times> 'x world" where
  "Recipe_init E recipe_name report_dir0 w =
     (case find_recipe E recipe_name (files w) of
        Inl e \<Rightarrow> (Inl e, log_msg EXCEPTION ''Failed to find recipe: %s'' [recipe_name] w)
      | Inr p \<Rightarrow>
          (case format p of
             Inl e \<Rightarrow> (Inl e, w)
           | Inr fmt \<Rightarrow>
               (case get_contents E p fmt (files w) of
                  Inl e \<Rightarrow> (Inl e, w)
                | Inr c \<Rightarrow>
                    (let now_str = utcnow_strftime E (ext w);
                         rdir = (case report_dir0 of None \<Rightarrow> report_dir (settings w) | Some d \<Rightarrow> d);
                         original_report_path =
                           rdir @ [''report_'' @ now_str @ ''_'' @ path_name p @ ''.plist''];
                         report_path =
                           scan_report_path (files w) original_report_path original_report_path 1
                     in case mkdir (files w) (parent report_path) of
                          Inl e \<Rightarrow> (Inl e, w)
                        | Inr f' \<Rightarrow>
                            (Inr \<lparr>self_name = recipe_name, self_path = p, self_format = fmt,
                                  self_contents = c, self_trusted = UNTESTED,
                                  self_result = RecipeReport report_path\<rparr>,
                             w\<lparr>files := f'\<rparr>)))))"

subsection \<open>Metadata collection\<close>

text \<open>A list comprehension, or \<^verbatim>\<open>asyncio.gather\<close> over a list of awaitables: the results
  in the order of the arguments, or the exception of a failing element. The reads that
  \<^verbatim>\<open>gather\<close> runs concurrently do not change the outside, so their interleaving does not
  show in the result; of several failures the model reports the first in argument order.\<close>

fun collect :: "('a \<Rightarrow> exn + 'b) \<Rightarrow> 'a list \<Rightarrow> exn + 'b list" where
  "collect g [] = Inr []"
| "collect g (x # xs) =
     (case g x of
        Inl e \<Rightarrow> Inl e
      | Inr y \<Rightarrow> (case collect g xs of Inl e \<Rightarrow> Inl e | Inr ys \<Rightarrow> Inr (y # ys)))"

definition extract_download_paths :: "(string \<times> string) list list \<Rightarrow> exn + string list" where
  "extract_download_paths download_items =
     (if download_items = [] then Inr []
      else collect (\<lambda>item. case map_of item ''download_path'' of
                              None \<Rightarrow> Inl (KeyError ''download_path'')
                            | Some v \<Rightarrow> Inr v) download_items)"

definition get_metadata_for_item :: "'x env \<Rightarrow> string \<Rightarrow> fs \<times> 'x \<Rightarrow> exn + DownloadMetadata" where
  "get_metadata_for_item E downloaded_item out =
     (case get_file_metadata E downloaded_item ''com.github.autopkg.etag'' out of
        Inl e \<Rightarrow> Inl e
      | Inr etag0 \<Rightarrow>
          (case get_file_size E downloaded_item out of
             Inl e \<Rightarrow> Inl e
           | Inr file_size0 \<Rightarrow>
               (case get_file_metadata E downloaded_item ''com.github.autopkg.last-modified'' out of
                  Inl e \<Rightarrow> Inl e
                | Inr last_modified0 \<Rightarrow>
                    Inr \<lparr>etag = etag0, file_size = file_size0, last_modified = last_modified0,
                         file_path = downloaded_item\<rparr>)))"

definition get_metadata :: "'x env \<Rightarrow> (string \<times> string) list list \<Rightarrow> 'x world \<Rightarrow> exn + RecipeCache" where
  "get_metadata E download_items w =
     (case extract_download_paths download_items of
        Inl e \<Rightarrow> Inl e
      | Inr paths \<Rightarrow>
          (case collect (\<lambda>downloaded_item. get_metadata_for_item E downloaded_item (files w, ext w)) paths of
             Inl e \<Rightarrow> Inl e
           | Inr metadata_list \<Rightarrow>
               Inr \<lparr>timestamp = utcnow_str E (ext w), metadata = metadata_list\<rparr>))"

subsection \<open>The two phases\<close>

definition autopkg_run_cmd :: "Recipe \<Rightarrow> SettingsObj \<Rightarrow> bool \<Rightarrow> string list" where
  "autopkg_run_cmd self s check =
     [''/usr/local/bin/autopkg'', ''run'', name self,
      ''--report-plist='' @ path_str (self_result self)]
     @ (if verbosity_int s (- 1) > 0 then [verbosity_str s (- 1)] else [])
     @ (if check then [''--check''] else [])"

definition compile_report :: "'x env \<Rightarrow> Recipe \<Rightarrow> 'x world \<Rightarrow> (exn + ConsolidatedReport) \<times> 'x world" where
  "compile_report E self w =
     (report_compile E (self_result self) (files w, ext w),
      w\<lparr>trace := trace w @ [CompileReport (self_result self)]\<rparr>)"

definition run_check_phase :: "'x env \<Rightarrow> Recipe \<Rightarrow> 'x world \<Rightarrow> (exn + ConsolidatedReport) \<times> 'x world" where
  "run_check_phase E self w =
     (let w1 = log_msg DEBUG ''Performing Check Phase on %s...'' [name self] w
      in case run_cmd E (autopkg_run_cmd self (settings w1) True) (Some False) w1 of
           (Inl e, w2) \<Rightarrow> (Inl e, w2)
         | (Inr (returncode, stdout, stderr), w2) \<Rightarrow>
             compile_report E self
               (if returncode \<noteq> 0
                then log_msg ERROR ''An error occurred while running the check phase, on %s: %s''
                       [name self, if stderr = [] then ''<Unknown Error>'' else stderr] w2
                else w2))"

definition run_full :: "'x env \<Rightarrow> Recipe \<Rightarrow> 'x world \<Rightarrow> (exn + ConsolidatedReport) \<times> 'x world" where
  "run_full E self w =
     (let w1 = log_msg DEBUG ''Performing AutoPkg Run on %s...'' [name self] w
      in case run_cmd E (autopkg_run_cmd self (settings w1) False) (Some False) w1 of
           (Inl e, w2) \<Rightarrow> (Inl e, w2)
         | (Inr (returncode, stdout, stderr), w2) \<Rightarrow>
             compile_report E self
               (if returncode \<noteq> 0
                then log_msg ERROR ''An error occurred while running %s: %s''
                       [name self, if stderr = [] then ''<Unknown Error>'' else stderr] w2
                else w2))"

definition run :: "'x env \<Rightarrow> Recipe \<Rightarrow> 'x world \<Rightarrow> (exn + ConsolidatedReport) \<times> 'x world" where
  "run E self w =
     (case run_check_phase E self w of
        (Inl e, w1) \<Rightarrow> (Inl e, w1)
      | (Inr output, w1) \<Rightarrow>
          if downloaded_items output \<noteq> []
          then (case get_metadata E (downloaded_items output) w1 of
                  Inl e \<Rightarrow> (Inl e, w1)
                | Inr metadata0 \<Rightarrow>
                    (case save E (cache_file (settings w1)) (name self) metadata0 w1 of
                       (Inl e, w2) \<Rightarrow> (Inl e, w2)
                     | (Inr u, w2) \<Rightarrow> run_full E self w2))
          else (Inr output, w1))"

subsection \<open>Trust information\<close>

definition update_trust_info :: "'x env \<Rightarrow> Recipe \<Rightarrow> 'x world \<Rightarrow> (exn + bool) \<times> Recipe \<times> 'x world" where
  "update_trust_info E self w =
     (let w1 = log_msg DEBUG ''Updating trust info for %s...'' [name self] w;
          cmd = [''/usr/local/bin/autopkg'', ''update-trust-info'', name self,
                 ''--override-dir='' @ path_str (parent (self_path self))]
      in case run_cmd E cmd None w1 of
           (Inl e, w2) \<Rightarrow> (Inl e, self, w2)
         | (Inr (returncode, stdout, stderr), w2) \<Rightarrow>
             (let w3 = log_msg INFO stdout [] w2;
                  self' = self\<lparr>self_trusted := UNTESTED\<rparr>
              in if returncode = 0
                 then (Inr True, self',
                       log_msg INFO ''Trust info update for %s successful.'' [name self] w3)
                 else (Inr False, self',
                       log_msg WARNING ''Trust info update for %s failed.'' [name self] w3)))"

definition verify_trust_info :: "'x env \<Rightarrow> Recipe \<Rightarrow> 'x world \<Rightarrow> (exn + pyobj) \<times> Recipe \<times> 'x world" where
  "verify_trust_info E self w =
     (if self_trusted self = UNTESTED
      then
        (let w1 = log_msg DEBUG ''Verifying trust info for %s...'' [name self] w;
             cmd = [''/usr/local/bin/autopkg'', ''verify-trust-info'', name self,
                    ''--override-dir='' @ path_str (parent (self_path self))]
                   @ (if verbosity_int (settings w1) 0 > 0 then [verbosity_str (settings w1) 0] else [])
         in case run_cmd E cmd (Some False) w1 of
              (Inl e, w2) \<Rightarrow> (Inl e, self, w2)
            | (Inr (returncode, stdout, stderr), w2) \<Rightarrow>
                if returncode = 0
                then (Inr (member_value TRUSTED), self\<lparr>self_trusted := TRUSTED\<rparr>,
                      log_msg INFO ''Trust info verification for %s successful.'' [name self] w2)
                else (Inr (member_value FAILED), self\<lparr>self_trusted := FAILED\<rparr>,
                      log_msg WARNING ''Trust info verification for %s failed.'' [name self] w2))
      else (Inr (member_value (self_trusted self)), self, w))"

section \<open>The settings singleton\<close>

text \<open>
  The class \<^verbatim>\<open>SettingsImpl\<close> keeps its one instance in the class attribute
  \<^verbatim>\<open>_instance\<close>. Instances live in a store, addressed by position; an instance whose
  attributes were not set yet (no \<^verbatim>\<open>_initialized\<close>) is \<open>None\<close> there. A constructor call
  \<^verbatim>\<open>SettingsImpl(...)\<close> runs \<^verbatim>\<open>__new__\<close> and then \<^verbatim>\<open>__init__\<close> on the instance it returned.
  The keyword arguments of a call are a record, a field being \<open>None\<close> when the argument is
  not passed (\<^verbatim>\<open>log_file\<close>, itself optional, is then \<open>Some None\<close> when passed as \<^verbatim>\<open>None\<close>).
\<close>

record SettingsImpl_class =
  objects :: "SettingsObj option list"
  cls_instance :: "nat option"

record kwargs =
  kw_cache_file :: "path option"
  kw_log_file :: "path option option"
  kw_max_concurrency :: "int option"
  kw_report_dir :: "path option"
  kw_verbosity_level :: "int option"

definition no_kwargs :: kwargs where
  "no_kwargs =
     \<lparr>kw_cache_file = None, kw_log_file = None, kw_max_concurrency = None,
      kw_report_dir = None, kw_verbosity_level = None\<rparr>"

text \<open>\<^verbatim>\<open>__new__\<close> passes its arguments on to \<^verbatim>\<open>object.__new__\<close>, which raises \<^verbatim>\<open>TypeError\<close>
  when it is given any; that call is made only while no instance exists.\<close>

definition SettingsImpl_new :: "SettingsImpl_class \<Rightarrow> kwargs \<Rightarrow> exn + nat \<times> SettingsImpl_class" where
  "SettingsImpl_new cls kw =
     (case cls_instance cls of
        None \<Rightarrow>
          if kw \<noteq> no_kwargs then Inl TypeError
          else Inr (length (objects cls),
                    cls\<lparr>objects := objects cls @ [None], cls_instance := Some (length (objects cls))\<rparr>)
      | Some a \<Rightarrow> Inr (a, cls))"

text \<open>\<^verbatim>\<open>__init__\<close>, with the defaults of its signature for the arguments not passed.\<close>

definition SettingsImpl_init :: "SettingsImpl_class \<Rightarrow> nat \<Rightarrow> kwargs \<Rightarrow> SettingsImpl_class" where
  "SettingsImpl_init cls a kw =
     (if a < length (objects cls) \<and> objects cls ! a = None
      then cls\<lparr>objects := (objects cls)
             [a := Some \<lparr>cache_file = (case kw_cache_file kw of None \<Rightarrow> [''metadata_cache.json''] | Some v \<Rightarrow> v),
                         log_file = (case kw_log_file kw of None \<Rightarrow> None | Some v \<Rightarrow> v),
                         max_concurrency = (case kw_max_concurrency kw of None \<Rightarrow> 10 | Some v \<Rightarrow> v),
                         report_dir = (case kw_report_dir kw of None \<Rightarrow> [''recipe_reports''] | Some v \<Rightarrow> v),
                         verbosity_level = (case kw_verbosity_level kw of None \<Rightarrow> 0 | Some v \<Rightarrow> v)\<rparr>]\<rparr>
      else cls)"

definition SettingsImpl :: "SettingsImpl_class \<Rightarrow> kwargs \<Rightarrow> exn + nat \<times> SettingsImpl_class" where
  "SettingsImpl cls kw =
     (case SettingsImpl_new cls kw of
        Inl e \<Rightarrow> Inl e
      | Inr (a, cls1) \<Rightarrow> Inr (a, SettingsImpl_init cls1 a kw))"

text \<open>The state of the class at the end of the class body, and the state after the
  module's last line, \<^verbatim>\<open>settings = SettingsImpl()\<close>.\<close>

definition class_body :: SettingsImpl_class where
  "class_body = \<lparr>objects = [], cls_instance = None\<rparr>"

definition module_loaded :: SettingsImpl_class where
  "module_loaded =
     (case SettingsImpl class_body no_kwargs of Inr (a, cls) \<Rightarrow> cls | Inl e \<Rightarrow> class_body)"

section \<open>A concrete environment\<close>

text \<open>
  Stand-ins for the collaborators, in the manner of the repository's tests: one override
  directory and one search directory, decoders that know a few documents, a clock that
  stands still, and an outside that consists of the exit code the external tool returns
  and the report it has written. \<^verbatim>\<open>run_cmd\<close> raises on a non-zero exit code unless it is
  called with \<^verbatim>\<open>check=False\<close>. A full run (a command without \<^verbatim>\<open>--check\<close>) adds a built
  package to the report; a cache save writes the cache file.
\<close>

definition no_downloads :: ConsolidatedReport where
  "no_downloads =
     \<lparr>failed_items = [], downloaded_items = [], pkg_built_items = [], munki_imported_items = []\<rparr>"

definition one_download :: ConsolidatedReport where
  "one_download = no_downloads\<lparr>downloaded_items := [[(''download_path'', ''/tmp/x.dmg'')]]\<rparr>"

definition stub_env :: "(int \<times> ConsolidatedReport) env" where
  "stub_env =
     \<lparr>recipe_override_dirs = [[''overrides'']],
      recipe_search_dirs = [[''recipes'']],
      expanduser = (\<lambda>p. p),
      rglob = (\<lambda>f d pat. filter (\<lambda>p. length d < length p \<and> take (length d) p = d \<and> path_name p = pat)
                             (map fst f)),
      plistlib_loads = (\<lambda>s. if s = ''<plist><dict>'' then Inl ExpatError
                             else if s = ''<plist><dict><key>Identifier</key><string>com.example.test</string></dict></plist>''
                             then Inr (PDict [(''Identifier'', PStr ''com.example.test'')])
                             else Inl InvalidFileException),
      yaml_safe_load = (\<lambda>s. if s = ''{Identifier: com.example.test, Input: {}}''
                             then Inr (PDict [(''Identifier'', PStr ''com.example.test''), (''Input'', PDict [])])
                             else if s = [] then Inr PNone
                             else Inl YAMLError),
      utcnow_strftime = (\<lambda>x. ''250101_1200''),
      utcnow_str = (\<lambda>x. ''2025-01-01 12:00:30+00:00''),
      shell_run_cmd = (\<lambda>cmd check (f, rc, rep).
                         if check \<noteq> Some False \<and> rc \<noteq> 0
                         then (Inl (OtherError ''ShellCommandException''), f, rc, rep)
                         else (Inr (rc, [], []), f,
                               rc, if ''--check'' \<in> set cmd then rep
                                   else rep\<lparr>pkg_built_items := [PStr ''Test.pkg'']\<rparr>)),
      report_compile = (\<lambda>p (f, rc, rep). Inr rep),
      get_file_metadata = (\<lambda>p attr out.
                             if attr = ''com.github.autopkg.etag'' then Inr (Some ''5d41402abc4b'')
                             else if attr = ''com.github.autopkg.last-modified''
                             then Inr (Some ''Wed, 01 Jan 2025 00:00:00 GMT'')
                             else Inr None),
      get_file_size = (\<lambda>p out. Inr (Some 1024)),
      cache_save = (\<lambda>p n c (f, x). (Inr (), f @ [(p, File n)], x))\<rparr>"

definition stub_settings :: SettingsObj where
  "stub_settings =
     \<lparr>cache_file = [''metadata_cache.json''], log_file = None, max_concurrency = 10,
      report_dir = [''recipe_reports''], verbosity_level = 0\<rparr>"

definition stub_files :: fs where
  "stub_files =
     [([''overrides''], Dir),
      ([''recipes''], Dir),
      ([''recipes'', ''Test.recipe''], File ''<plist><dict>''),
      ([''recipes'', ''Test.recipe.yaml''], File ''{Identifier: com.example.test, Input: {}}'')]"

definition stub_world :: "int \<Rightarrow> ConsolidatedReport \<Rightarrow> (int \<times> ConsolidatedReport) world" where
  "stub_world rc rep =
     \<lparr>files = stub_files, ext = (rc, rep), settings = stub_settings, trace = [], logs = []\<rparr>"

definition stub_recipe :: Recipe where
  "stub_recipe =
     \<lparr>self_name = ''Test.recipe.yaml'',
      self_path = [''recipes'', ''Test.recipe.yaml''],
      self_format = YAML,
      self_contents = PDict [(''Identifier'', PStr ''com.example.test''), (''Input'', PDict [])],
      self_trusted = UNTESTED,
      self_result = [''recipe_reports'', ''report_250101_1200_Test.recipe.yaml.plist'']\<rparr>"

section \<open>Properties\<close>

subsection \<open>The members of the trust state enumeration\<close>

lemma UNTESTED_eq: "UNTESTED = Member ''UNTESTED'' (PInt 1)"
  by (simp add: UNTESTED_def TrustInfoVerificationState_def enum_attr_def
      generate_next_value_def py_eq_def Let_def)

lemma FAILED_eq: "FAILED = Member ''FAILED'' (PBool False)"
  by (simp add: FAILED_def TrustInfoVerificationState_def enum_attr_def
      generate_next_value_def py_eq_def Let_def)

text \<open>\<^verbatim>\<open>TRUSTED = True\<close> comes after \<^verbatim>\<open>UNTESTED = auto()\<close>, whose value is \<open>1\<close>, and
  \<^verbatim>\<open>True == 1\<close>: the name \<^verbatim>\<open>TRUSTED\<close> is an alias of the member \<^verbatim>\<open>UNTESTED\<close>.\<close>

lemma TRUSTED_eq: "TRUSTED = Member ''UNTESTED'' (PInt 1)"
  by (simp add: TRUSTED_def TrustInfoVerificationState_def enum_attr_def
      generate_next_value_def py_eq_def Let_def)

subsection \<open>Trust verification\<close>

text \<open>The guard of \<^verbatim>\<open>verify_trust_info\<close> does memoize every state other than \<^verbatim>\<open>UNTESTED\<close>,
  and a failed verification is such a state.\<close>

lemma verify_trust_info_memoized:
  "self_trusted self \<noteq> UNTESTED \<Longrightarrow>
     verify_trust_info E self w = (Inr (member_value (self_trusted self)), self, w)"
  by (simp add: verify_trust_info_def)

lemma verify_trust_info_failure:
  assumes "self_trusted self = UNTESTED"
    and "fst (shell_run_cmd E cmd (Some False) (files w, ext w)) = Inr (returncode, stdout, stderr)"
    and "returncode \<noteq> 0"
    and "cmd = [''/usr/local/bin/autopkg'', ''verify-trust-info'', name self,
                ''--override-dir='' @ path_str (parent (self_path self))]
               @ (if verbosity_int (settings w) 0 > 0 then [verbosity_str (settings w) 0] else [])"
  shows "fst (verify_trust_info E self w) = Inr (PBool False)
       \<and> self_trusted (fst (snd (verify_trust_info E self w))) = FAILED
       \<and> FAILED \<noteq> UNTESTED"
  using assms
  by (auto simp: verify_trust_info_def run_cmd_def log_msg_def Let_def FAILED_eq UNTESTED_eq
      split: prod.splits)

text \<open>
  C3. Two calls of \<^verbatim>\<open>verify_trust_info\<close> in succession, with no \<^verbatim>\<open>update_trust_info\<close>
  between them, are claimed to run the verification subprocess at most once, the second
  call returning the memoized state. Evaluated on a recipe whose verification exits with
  code 0: the first call stores \<^verbatim>\<open>TRUSTED\<close>, which is the member \<^verbatim>\<open>UNTESTED\<close>, returns
  its value \<open>1\<close>, and the second call runs the subprocess again.
\<close>

theorem verify_trust_info_twice_runs_twice:
  "(case verify_trust_info stub_env stub_recipe (stub_world 0 no_downloads) of
      (r1, self1, w1) \<Rightarrow>
        (case verify_trust_info stub_env self1 w1 of
           (r2, self2, w2) \<Rightarrow> (r1, self_trusted self1 = UNTESTED, r2, trace w2)))
   = (Inr (PInt 1), True, Inr (PInt 1),
      [RunCmd [''/usr/local/bin/autopkg'', ''verify-trust-info'', ''Test.recipe.yaml'', ''--override-dir=recipes''],
       RunCmd [''/usr/local/bin/autopkg'', ''verify-trust-info'', ''Test.recipe.yaml'', ''--override-dir=recipes'']])"
  by (simp add: verify_trust_info_def stub_recipe_def stub_world_def stub_env_def stub_settings_def
      run_cmd_def log_msg_def name_def path_name_def parent_def path_str_def
      verbosity_int_def UNTESTED_eq TRUSTED_eq FAILED_eq)

text \<open>When \<^verbatim>\<open>run_cmd\<close> returns an exit code, \<^verbatim>\<open>update_trust_info\<close> resets the state and
  returns whether the code was zero; when \<^verbatim>\<open>run_cmd\<close> raises, the exception leaves
  \<^verbatim>\<open>update_trust_info\<close> before the state is touched.\<close>

lemma update_trust_info_returned:
  assumes "fst (run_cmd E [''/usr/local/bin/autopkg'', ''update-trust-info'', name self,
                           ''--override-dir='' @ path_str (parent (self_path self))] None
                  (log_msg DEBUG ''Updating trust info for %s...'' [name self] w))
           = Inr (returncode, stdout, stderr)"
  shows "fst (update_trust_info E self w) = Inr (returncode = 0)
       \<and> self_trusted (fst (snd (update_trust_info E self w))) = UNTESTED"
  using assms by (auto simp: update_trust_info_def Let_def split: prod.splits)

lemma update_trust_info_raised:
  assumes "fst (run_cmd E [''/usr/local/bin/autopkg'', ''update-trust-info'', name self,
                           ''--override-dir='' @ path_str (parent (self_path self))] None
                  (log_msg DEBUG ''Updating trust info for %s...'' [name self] w))
           = Inl e"
  shows "fst (update_trust_info E self w) = Inl e \<and> fst (snd (update_trust_info E self w)) = self"
  using assms by (auto simp: update_trust_info_def Let_def split: prod.splits)

text \<open>
  C4. \<^verbatim>\<open>update_trust_info\<close> is claimed to reset the state to \<^verbatim>\<open>UNTESTED\<close> and to return
  whether the exit code was zero, for every exit code of the subprocess. It calls
  \<^verbatim>\<open>run_cmd(cmd)\<close> with \<^verbatim>\<open>check\<close> left to its default, where the check phase, the full
  phase and the verification pass \<^verbatim>\<open>check=False\<close>. Evaluated on a recipe in state
  \<^verbatim>\<open>FAILED\<close> whose trust update exits with code 1: \<^verbatim>\<open>run_cmd\<close> raises, no boolean is
  returned and the state is still \<^verbatim>\<open>FAILED\<close>.
\<close>

theorem update_trust_info_nonzero_exit:
  "fst (update_trust_info stub_env (stub_recipe\<lparr>self_trusted := FAILED\<rparr>) (stub_world 1 no_downloads))
     = Inl (OtherError ''ShellCommandException'')
   \<and> self_trusted (fst (snd (update_trust_info stub_env (stub_recipe\<lparr>self_trusted := FAILED\<rparr>)
                              (stub_world 1 no_downloads)))) = FAILED
   \<and> FAILED \<noteq> UNTESTED
   \<and> trace (snd (snd (update_trust_info stub_env (stub_recipe\<lparr>self_trusted := FAILED\<rparr>)
                         (stub_world 1 no_downloads))))
       = [RunCmd [''/usr/local/bin/autopkg'', ''update-trust-info'', ''Test.recipe.yaml'',
                  ''--override-dir=recipes'']]"
  by (simp add: update_trust_info_def stub_recipe_def stub_world_def stub_env_def run_cmd_def
      log_msg_def name_def path_name_def parent_def path_str_def UNTESTED_eq FAILED_eq)

subsection \<open>Download paths\<close>

text \<open>
  C9. The extraction of download paths is claimed to return the list of paths for every
  sequence of downloaded-item entries, each of which may or may not hold a
  \<^verbatim>\<open>download_path\<close>, and never to raise. Evaluated on one entry without the key: the
  subscript \<^verbatim>\<open>item["download_path"]\<close> raises \<^verbatim>\<open>KeyError\<close>. The empty sequence gives the
  empty list.
\<close>

theorem extract_download_paths_missing_key:
  "extract_download_paths [[(''url'', ''https://example.com/x.dmg'')]] = Inl (KeyError ''download_path'')
   \<and> extract_download_paths [] = Inr []"
  by (simp add: extract_download_paths_def)

subsection \<open>The settings singleton\<close>

text \<open>
  C10. Once the singleton exists and has been initialised, a constructor call with any
  arguments returns that same instance and changes nothing: neither the store of
  instances (so every field keeps its value) nor the class attribute.
\<close>

theorem SettingsImpl_second_call:
  assumes "cls_instance cls = Some a" and "a < length (objects cls)" and "objects cls ! a = Some s"
  shows "SettingsImpl cls kw = Inr (a, cls)"
  using assms by (simp add: SettingsImpl_def SettingsImpl_new_def SettingsImpl_init_def)

theorem SettingsImpl_second_call_witness:
  "SettingsImpl class_body no_kwargs = Inr (0, module_loaded)
   \<and> module_loaded
       = \<lparr>objects = [Some \<lparr>cache_file = [''metadata_cache.json''], log_file = None, max_concurrency = 10,
                            report_dir = [''recipe_reports''], verbosity_level = 0\<rparr>],
          cls_instance = Some 0\<rparr>
   \<and> SettingsImpl module_loaded
        \<lparr>kw_cache_file = Some [''other.json''], kw_log_file = Some (Some [''run.log'']),
         kw_max_concurrency = Some 1, kw_report_dir = Some [''elsewhere''],
         kw_verbosity_level = Some 3\<rparr>
      = Inr (0, module_loaded)"
proof -
  have c: "SettingsImpl class_body no_kwargs
             = Inr (0, \<lparr>objects = [Some \<lparr>cache_file = [''metadata_cache.json''], log_file = None,
                                         max_concurrency = 10, report_dir = [''recipe_reports''],
                                         verbosity_level = 0\<rparr>],
                        cls_instance = Some 0\<rparr>)"
    by (simp add: class_body_def no_kwargs_def SettingsImpl_def SettingsImpl_new_def
        SettingsImpl_init_def)
  then have m: "module_loaded
             = \<lparr>objects = [Some \<lparr>cache_file = [''metadata_cache.json''], log_file = None,
                                  max_concurrency = 10, report_dir = [''recipe_reports''],
                                  verbosity_level = 0\<rparr>],
                cls_instance = Some 0\<rparr>"
    by (simp add: module_loaded_def)
  have "cls_instance module_loaded = Some 0" "0 < length (objects module_loaded)"
    "objects module_loaded ! 0
       = Some \<lparr>cache_file = [''metadata_cache.json''], log_file = None, max_concurrency = 10,
               report_dir = [''recipe_reports''], verbosity_level = 0\<rparr>"
    by (simp_all add: m)
  from SettingsImpl_second_call [OF this] c m show ?thesis by simp
qed

subsection \<open>The name input\<close>

text \<open>
  C8. On a recipe whose contents hold an \<^verbatim>\<open>Input\<close> mapping, \<^verbatim>\<open>input_name\<close> raises
  \<^verbatim>\<open>RecipeInputException\<close> when the mapping has no \<^verbatim>\<open>NAME\<close> key and returns the mapped
  value otherwise, so it raises exactly when the key is absent. Parsing does not look
  at the key: whatever document a decoder returns is the result of parsing.
\<close>

theorem input_name_spec:
  assumes "py_getitem (self_contents self) ''Input'' = Inr (PDict inp)"
  shows "input_name self =
           (case map_of inp ''NAME'' of
              None \<Rightarrow> Inl (RecipeInputException (self_path self))
            | Some v \<Rightarrow> Inr v)
       \<and> (input_name self = Inl (RecipeInputException (self_path self)) \<longleftrightarrow> map_of inp ''NAME'' = None)
       \<and> (yaml_safe_load E text = Inr (self_contents self)
            \<longrightarrow> get_contents_yaml E p text = Inr (self_contents self))
       \<and> (plistlib_loads E text = Inr (self_contents self)
            \<longrightarrow> get_contents_plist E p text = Inr (self_contents self))"
  using assms
  by (auto simp: input_name_def get_contents_yaml_def get_contents_plist_def split: option.splits)

theorem input_name_spec_witness:
  "input_name stub_recipe = Inl (RecipeInputException [''recipes'', ''Test.recipe.yaml''])
   \<and> get_contents_yaml stub_env [''recipes'', ''Test.recipe.yaml'']
        ''{Identifier: com.example.test, Input: {}}'' = Inr (self_contents stub_recipe)
   \<and> input_name (stub_recipe\<lparr>self_contents :=
         PDict [(''Identifier'', PStr ''com.example.test''), (''Input'', PDict [(''NAME'', PStr ''TestRecipe'')])]\<rparr>)
       = Inr (PStr ''TestRecipe'')"
proof -
  let ?named = "stub_recipe\<lparr>self_contents :=
         PDict [(''Identifier'', PStr ''com.example.test''), (''Input'', PDict [(''NAME'', PStr ''TestRecipe'')])]\<rparr>"
  have a: "py_getitem (self_contents stub_recipe) ''Input'' = Inr (PDict [])"
    by (simp add: stub_recipe_def)
  have b: "py_getitem (self_contents ?named) ''Input'' = Inr (PDict [(''NAME'', PStr ''TestRecipe'')])"
    by simp
  have c: "yaml_safe_load stub_env ''{Identifier: com.example.test, Input: {}}'' = Inr (self_contents stub_recipe)"
    by (simp add: stub_env_def stub_recipe_def)
  from input_name_spec [OF a, of stub_env "''{Identifier: com.example.test, Input: {}}''"
      "[''recipes'', ''Test.recipe.yaml'']"]
    input_name_spec [OF b, of stub_env "[]" "[]"] c
  show ?thesis by (simp add: stub_recipe_def)
qed

subsection \<open>Decoding failures\<close>

text \<open>
  C7. A malformed document is claimed to fail with the content error of its format,
  never with a generic error. \<^verbatim>\<open>_get_contents_plist\<close> catches
  \<^verbatim>\<open>plistlib.InvalidFileException\<close> only. \<^verbatim>\<open>plistlib.loads\<close> raises that class when the
  data is in no known format; data that starts like an XML property list and is not
  well-formed XML makes it raise \<^verbatim>\<open>xml.parsers.expat.ExpatError\<close>, which is no subclass.
  Whenever the decoder raises that exception, it leaves \<^verbatim>\<open>_get_contents_plist\<close> as it
  is, not as \<^verbatim>\<open>InvalidPlistContents\<close>.
\<close>

theorem get_contents_plist_expat_error:
  "get_contents_plist (E\<lparr>plistlib_loads := (\<lambda>s. if s = file_contents then Inl ExpatError else plistlib_loads E s)\<rparr>)
     p file_contents = Inl ExpatError
   \<and> get_contents_plist stub_env [''recipes'', ''Test.recipe''] ''<plist><dict>'' = Inl ExpatError"
  by (simp add: get_contents_plist_def stub_env_def)


text \<open>The failures that are caught, and the well-formed case: the contents of the recipe
  are the decoded document, so its identifier is the one the document declares.\<close>

lemma get_contents_plist_invalid_file:
  "plistlib_loads E file_contents = Inl InvalidFileException \<Longrightarrow>
     get_contents_plist E p file_contents = Inl (InvalidPlistContents p)"
  by (simp add: get_contents_plist_def)

lemma get_contents_yaml_malformed:
  "yaml_safe_load E file_contents = Inl YAMLError \<Longrightarrow>
     get_contents_yaml E p file_contents = Inl (InvalidYamlContents p)"
  by (simp add: get_contents_yaml_def)

lemma recipe_identifier_declared:
  "get_contents_yaml E p file_contents = Inr doc \<or> get_contents_plist E p file_contents = Inr doc \<Longrightarrow>
     self_contents self = doc \<Longrightarrow> recipe_identifier self = py_getitem doc ''Identifier''"
  by (simp add: recipe_identifier_def)

subsection \<open>The execution pipeline\<close>

lemma run_cmd_effect:
  "trace (snd (run_cmd E cmd check w)) = trace w @ [RunCmd cmd]
   \<and> settings (snd (run_cmd E cmd check w)) = settings w"
  by (simp add: run_cmd_def split: prod.splits)

lemma save_effect:
  "trace (snd (save E file recipe_name c w)) = trace w @ [CacheSave file recipe_name c]
   \<and> settings (snd (save E file recipe_name c w)) = settings w"
  by (simp add: save_def split: prod.splits)

lemma run_check_phase_effect:
  assumes "fst (run_check_phase E self w) = Inr output"
  shows "trace (snd (run_check_phase E self w))
           = trace w @ [RunCmd (autopkg_run_cmd self (settings w) True), CompileReport (self_result self)]
       \<and> settings (snd (run_check_phase E self w)) = settings w"
proof -
  let ?w1 = "log_msg DEBUG ''Performing Check Phase on %s...'' [name self] w"
  let ?cmd = "autopkg_run_cmd self (settings w) True"
  obtain r w2 where rc: "run_cmd E ?cmd (Some False) ?w1 = (r, w2)" by (cases "run_cmd E ?cmd (Some False) ?w1")
  from run_cmd_effect [of E ?cmd "Some False" ?w1] rc
  have w2: "trace w2 = trace w @ [RunCmd ?cmd]" "settings w2 = settings w"
    by (simp_all add: log_msg_def)
  from assms rc obtain returncode stdout stderr where r: "r = Inr (returncode, stdout, stderr)"
    by (cases r) (auto simp: run_check_phase_def log_msg_def)
  from rc r w2 show ?thesis
    by (simp add: run_check_phase_def compile_report_def log_msg_def)
qed

lemma run_full_effect:
  assumes "fst (run_full E self w) = Inr output"
  shows "trace (snd (run_full E self w))
           = trace w @ [RunCmd (autopkg_run_cmd self (settings w) False), CompileReport (self_result self)]"
proof -
  let ?w1 = "log_msg DEBUG ''Performing AutoPkg Run on %s...'' [name self] w"
  let ?cmd = "autopkg_run_cmd self (settings w) False"
  obtain r w2 where rc: "run_cmd E ?cmd (Some False) ?w1 = (r, w2)" by (cases "run_cmd E ?cmd (Some False) ?w1")
  from run_cmd_effect [of E ?cmd "Some False" ?w1] rc
  have w2: "trace w2 = trace w @ [RunCmd ?cmd]"
    by (simp_all add: log_msg_def)
  from assms rc obtain returncode stdout stderr where r: "r = Inr (returncode, stdout, stderr)"
    by (cases r) (auto simp: run_full_def log_msg_def)
  from rc r w2 show ?thesis
    by (simp add: run_full_def compile_report_def log_msg_def)
qed

text \<open>The command of the check phase ends in \<^verbatim>\<open>--check\<close>; no command of a full phase
  does, whatever the verbosity.\<close>

lemma check_cmd_not_full_cmd: "autopkg_run_cmd self s False \<noteq> autopkg_run_cmd self s' True"
proof
  assume eq: "autopkg_run_cmd self s False = autopkg_run_cmd self s' True"
  have "last (autopkg_run_cmd self s' True) = ''--check''"
    by (simp add: autopkg_run_cmd_def)
  moreover have "last (autopkg_run_cmd self s False) \<noteq> ''--check''"
    by (cases "nat (verbosity_level s - 1)") (auto simp: autopkg_run_cmd_def verbosity_str_def)
  ultimately show False using eq by simp
qed

text \<open>
  C1. When the report compiled after the check phase has no downloaded items, \<^verbatim>\<open>run\<close>
  ends with the check phase: it returns that report, and the calls it made are the
  check-phase subprocess and the compilation of the report, the command of a full phase
  not among them.
\<close>

theorem run_without_downloads:
  assumes "fst (run_check_phase E self w) = Inr output" and "downloaded_items output = []"
  shows "fst (run E self w) = Inr output
       \<and> run E self w = run_check_phase E self w
       \<and> trace (snd (run E self w))
           = trace w @ [RunCmd (autopkg_run_cmd self (settings w) True), CompileReport (self_result self)]
       \<and> RunCmd (autopkg_run_cmd self s False) \<notin> set (drop (length (trace w)) (trace (snd (run E self w))))"
proof -
  from assms have r: "run E self w = run_check_phase E self w"
    by (cases "run_check_phase E self w") (simp add: run_def)
  from run_check_phase_effect [OF assms(1)] r assms(1) show ?thesis
    by (simp add: check_cmd_not_full_cmd)
qed

theorem run_without_downloads_witness:
  "fst (run stub_env stub_recipe (stub_world 0 no_downloads)) = Inr no_downloads
   \<and> trace (snd (run stub_env stub_recipe (stub_world 0 no_downloads)))
       = [RunCmd [''/usr/local/bin/autopkg'', ''run'', ''Test.recipe.yaml'',
                  ''--report-plist=recipe_reports/report_250101_1200_Test.recipe.yaml.plist'', ''--check''],
          CompileReport [''recipe_reports'', ''report_250101_1200_Test.recipe.yaml.plist'']]"
proof -
  have a: "fst (run_check_phase stub_env stub_recipe (stub_world 0 no_downloads)) = Inr no_downloads"
    by (simp add: run_check_phase_def run_cmd_def compile_report_def log_msg_def stub_env_def
        stub_world_def autopkg_run_cmd_def)
  have b: "downloaded_items no_downloads = []"
    by (simp add: no_downloads_def)
  let ?w = "stub_world 0 no_downloads"
  from run_without_downloads [OF a b, where s = stub_settings]
  have "fst (run stub_env stub_recipe ?w) = Inr no_downloads"
    and "trace (snd (run stub_env stub_recipe ?w))
           = trace ?w @ [RunCmd (autopkg_run_cmd stub_recipe (settings ?w) True),
                         CompileReport (self_result stub_recipe)]"
    by blast+
  then show ?thesis
    by (simp add: stub_world_def stub_recipe_def stub_settings_def autopkg_run_cmd_def name_def
        path_name_def path_str_def verbosity_int_def)
qed


lemma collect_Inr: "collect g xs = Inr ys \<longleftrightarrow> map g xs = map Inr ys"
proof (induction xs arbitrary: ys)
  case Nil
  then show ?case by auto
next
  case (Cons x xs)
  show ?case
  proof (cases "g x")
    case (Inl e)
    then show ?thesis by (cases ys) auto
  next
    case gx: (Inr y)
    show ?thesis
    proof (cases "collect g xs")
      case (Inl e)
      with Cons.IH have "\<And>zs. map g xs \<noteq> map Inr zs" by simp
      with gx Inl show ?thesis by (cases ys) auto
    next
      case (Inr zs)
      with Cons.IH [of zs] have "map g xs = map Inr zs" by simp
      with gx Inr show ?thesis by (cases ys) auto
    qed
  qed
qed

text \<open>
  The metadata collection in the words of its contract: for each extracted path the
  three attributes are fetched (entity tag, byte size, last-modified marker) and
  assembled into one \<^verbatim>\<open>DownloadMetadata\<close>; the cache is these entries, in the order of
  the paths, under the timestamp of the collection.
\<close>

definition reads_return :: "'x env \<Rightarrow> fs \<times> 'x \<Rightarrow> string \<Rightarrow> bool" where
  "reads_return E out p =
     (\<not> isl (get_file_metadata E p ''com.github.autopkg.etag'' out)
      \<and> \<not> isl (get_file_size E p out)
      \<and> \<not> isl (get_file_metadata E p ''com.github.autopkg.last-modified'' out))"

definition item_metadata :: "'x env \<Rightarrow> fs \<times> 'x \<Rightarrow> string \<Rightarrow> DownloadMetadata" where
  "item_metadata E out p =
     \<lparr>etag = projr (get_file_metadata E p ''com.github.autopkg.etag'' out),
      file_size = projr (get_file_size E p out),
      last_modified = projr (get_file_metadata E p ''com.github.autopkg.last-modified'' out),
      file_path = p\<rparr>"

definition collected :: "'x env \<Rightarrow> 'x world \<Rightarrow> string list \<Rightarrow> RecipeCache" where
  "collected E w paths =
     \<lparr>timestamp = utcnow_str E (ext w),
      metadata = map (item_metadata E (files w, ext w)) paths\<rparr>"

lemma get_metadata_for_item_returns:
  "reads_return E out p \<Longrightarrow> get_metadata_for_item E p out = Inr (item_metadata E out p)"
  by (auto simp: reads_return_def get_metadata_for_item_def item_metadata_def split: sum.splits)

lemma extract_download_paths_present:
  assumes "map (\<lambda>item. map_of item ''download_path'') download_items = map Some paths"
  shows "extract_download_paths download_items = Inr paths"
proof -
  let ?get = "\<lambda>v. case v of None \<Rightarrow> Inl (KeyError ''download_path'') | Some x \<Rightarrow> (Inr x :: exn + string)"
  have "map (\<lambda>item. ?get (map_of item ''download_path'')) download_items
          = map ?get (map (\<lambda>item. map_of item ''download_path'') download_items)"
    by simp
  also have "\<dots> = map Inr paths" by (simp add: assms)
  finally have "collect (\<lambda>item. ?get (map_of item ''download_path'')) download_items = Inr paths"
    by (simp add: collect_Inr)
  moreover from assms have "download_items = [] \<Longrightarrow> paths = []" by simp
  ultimately show ?thesis by (auto simp: extract_download_paths_def)
qed

lemma get_metadata_collected:
  assumes "map (\<lambda>item. map_of item ''download_path'') download_items = map Some paths"
    and "list_all (reads_return E (files w, ext w)) paths"
  shows "get_metadata E download_items w = Inr (collected E w paths)"
proof -
  from assms(2)
  have "map (\<lambda>p. get_metadata_for_item E p (files w, ext w)) paths
          = map Inr (map (item_metadata E (files w, ext w)) paths)"
    by (simp add: list_all_iff get_metadata_for_item_returns)
  then have "collect (\<lambda>p. get_metadata_for_item E p (files w, ext w)) paths
               = Inr (map (item_metadata E (files w, ext w)) paths)"
    by (simp add: collect_Inr)
  with extract_download_paths_present [OF assms(1)] show ?thesis
    by (simp add: get_metadata_def collected_def)
qed

text \<open>
  C2. Every recipe whose check-phase report has \<open>N \<ge> 1\<close> downloaded items is claimed to
  get \<open>N\<close> metadata entries, one saved cache and one full phase. Evaluated on a report
  whose one item holds no \<^verbatim>\<open>download_path\<close>: \<^verbatim>\<open>run\<close> raises \<^verbatim>\<open>KeyError\<close> after the check
  phase; nothing is collected or saved and no full phase is run.
\<close>

definition download_without_path :: ConsolidatedReport where
  "download_without_path =
     no_downloads\<lparr>downloaded_items := [[(''url'', ''https://example.com/x.dmg'')]]\<rparr>"

theorem run_item_without_path:
  "fst (run stub_env stub_recipe (stub_world 0 download_without_path)) = Inl (KeyError ''download_path'')
   \<and> length (downloaded_items download_without_path) = 1
   \<and> trace (snd (run stub_env stub_recipe (stub_world 0 download_without_path)))
       = [RunCmd [''/usr/local/bin/autopkg'', ''run'', ''Test.recipe.yaml'',
                  ''--report-plist=recipe_reports/report_250101_1200_Test.recipe.yaml.plist'', ''--check''],
          CompileReport [''recipe_reports'', ''report_250101_1200_Test.recipe.yaml.plist'']]"
  by (simp add: run_def run_check_phase_def run_cmd_def compile_report_def log_msg_def
      get_metadata_def extract_download_paths_def autopkg_run_cmd_def name_def path_name_def
      path_str_def verbosity_int_def download_without_path_def no_downloads_def
      stub_env_def stub_world_def stub_recipe_def stub_settings_def)

text \<open>
  What holds: when each of the \<open>N \<ge> 1\<close> downloaded items of the check-phase report holds
  a \<^verbatim>\<open>download_path\<close>, the attribute reads return for each path, the save completes and
  the full phase returns, \<^verbatim>\<open>run\<close> returns the report of the full phase. What is collected
  is the cache of the contract: \<open>N\<close> entries, the entry of each item in the item's place,
  with the item's path and the three attributes read for it. The calls made are, in
  this order: the check-phase subprocess, the compilation of its report, one save of
  that cache under the recipe's file name, the full-phase subprocess, the compilation of
  its report.
\<close>

theorem run_with_downloads:
  assumes "fst (run_check_phase E self w) = Inr output"
    and "downloaded_items output \<noteq> []"
    and "w1 = snd (run_check_phase E self w)"
    and "map (\<lambda>item. map_of item ''download_path'') (downloaded_items output) = map Some paths"
    and "list_all (reads_return E (files w1, ext w1)) paths"
    and "c = collected E w1 paths"
    and "fst (save E (cache_file (settings w)) (name self) c w1) = Inr u"
    and "fst (run_full E self (snd (save E (cache_file (settings w)) (name self) c w1))) = Inr final"
  shows "fst (run E self w) = Inr final
       \<and> get_metadata E (downloaded_items output) w1 = Inr c
       \<and> length (metadata c) = length (downloaded_items output)
       \<and> metadata c = map (item_metadata E (files w1, ext w1)) paths
       \<and> trace (snd (run E self w))
           = trace w @ [RunCmd (autopkg_run_cmd self (settings w) True),
                        CompileReport (self_result self),
                        CacheSave (cache_file (settings w)) (name self) c,
                        RunCmd (autopkg_run_cmd self (settings w) False),
                        CompileReport (self_result self)]"
proof -
  let ?w2 = "snd (save E (cache_file (settings w)) (name self) c w1)"
  note c1 = run_check_phase_effect [OF assms(1), folded assms(3)]
  note s2 = save_effect [of E "cache_file (settings w)" "name self" c w1]
  have gm: "get_metadata E (downloaded_items output) w1 = Inr c"
    unfolding assms(6) using assms(4,5) by (rule get_metadata_collected)
  have r: "run E self w = run_full E self ?w2"
    using assms(1,2,7) gm c1 unfolding assms(3)
    by (cases "run_check_phase E self w";
        cases "save E (cache_file (settings w)) (name self) c (snd (run_check_phase E self w))")
       (simp add: run_def)
  from run_full_effect [OF assms(8)] c1 s2
  have t: "trace (snd (run_full E self ?w2))
          = trace w @ [RunCmd (autopkg_run_cmd self (settings w) True),
                       CompileReport (self_result self),
                       CacheSave (cache_file (settings w)) (name self) c,
                       RunCmd (autopkg_run_cmd self (settings w) False),
                       CompileReport (self_result self)]"
    by simp
  from assms(4) have "length (downloaded_items output) = length paths"
    using map_eq_imp_length_eq by fastforce
  with r t assms(8) gm show ?thesis by (simp add: assms(6) collected_def)
qed

definition stub_cache :: RecipeCache where
  "stub_cache =
     \<lparr>timestamp = ''2025-01-01 12:00:30+00:00'',
      metadata = [\<lparr>etag = Some ''5d41402abc4b'', file_size = Some 1024,
                   last_modified = Some ''Wed, 01 Jan 2025 00:00:00 GMT'',
                   file_path = ''/tmp/x.dmg''\<rparr>]\<rparr>"

theorem run_with_downloads_witness:
  "fst (run stub_env stub_recipe (stub_world 0 one_download))
     = Inr (one_download\<lparr>pkg_built_items := [PStr ''Test.pkg'']\<rparr>)
   \<and> trace (snd (run stub_env stub_recipe (stub_world 0 one_download)))
       = [RunCmd [''/usr/local/bin/autopkg'', ''run'', ''Test.recipe.yaml'',
                  ''--report-plist=recipe_reports/report_250101_1200_Test.recipe.yaml.plist'', ''--check''],
          CompileReport [''recipe_reports'', ''report_250101_1200_Test.recipe.yaml.plist''],
          CacheSave [''metadata_cache.json''] ''Test.recipe.yaml'' stub_cache,
          RunCmd [''/usr/local/bin/autopkg'', ''run'', ''Test.recipe.yaml'',
                  ''--report-plist=recipe_reports/report_250101_1200_Test.recipe.yaml.plist''],
          CompileReport [''recipe_reports'', ''report_250101_1200_Test.recipe.yaml.plist'']]
   \<and> length (metadata stub_cache) = 1"
proof -
  let ?w = "stub_world 0 one_download"
  let ?E = "stub_env"
  let ?final = "one_download\<lparr>pkg_built_items := [PStr ''Test.pkg'']\<rparr>"
  let ?w1 = "?w\<lparr>trace := [RunCmd (autopkg_run_cmd stub_recipe stub_settings True),
                         CompileReport (self_result stub_recipe)],
               logs := [(DEBUG, ''Performing Check Phase on %s...'', [name stub_recipe])]\<rparr>"
  have cp: "run_check_phase ?E stub_recipe ?w = (Inr one_download, ?w1)"
    by (simp add: run_check_phase_def run_cmd_def compile_report_def log_msg_def stub_env_def
        stub_world_def autopkg_run_cmd_def)
  have a: "fst (run_check_phase ?E stub_recipe ?w) = Inr one_download"
    by (simp add: cp)
  have b: "downloaded_items one_download \<noteq> []"
    by (simp add: one_download_def)
  have w1: "?w1 = snd (run_check_phase ?E stub_recipe ?w)"
    by (simp add: cp)
  have ps: "map (\<lambda>item. map_of item ''download_path'') (downloaded_items one_download)
              = map Some [''/tmp/x.dmg'']"
    by (simp add: one_download_def)
  have rd: "list_all (reads_return ?E (files ?w1, ext ?w1)) [''/tmp/x.dmg'']"
    by (simp add: reads_return_def stub_env_def)
  have c: "stub_cache = collected ?E ?w1 [''/tmp/x.dmg'']"
    by (simp add: stub_cache_def collected_def item_metadata_def stub_env_def)
  have sv: "save ?E (cache_file (settings ?w)) (name stub_recipe) stub_cache ?w1
      = (Inr (),
         ?w\<lparr>files := stub_files @ [([''metadata_cache.json''], File (name stub_recipe))],
             trace := [RunCmd (autopkg_run_cmd stub_recipe stub_settings True),
                       CompileReport (self_result stub_recipe),
                       CacheSave [''metadata_cache.json''] (name stub_recipe) stub_cache],
             logs := [(DEBUG, ''Performing Check Phase on %s...'', [name stub_recipe])]\<rparr>)"
    by (simp add: save_def stub_env_def stub_world_def stub_settings_def)
  have d: "fst (save ?E (cache_file (settings ?w)) (name stub_recipe) stub_cache ?w1) = Inr ()"
    by (simp add: sv)
  have e: "fst (run_full ?E stub_recipe
                  (snd (save ?E (cache_file (settings ?w)) (name stub_recipe) stub_cache ?w1)))
             = Inr ?final"
    unfolding sv snd_conv
    by (simp add: run_full_def run_cmd_def compile_report_def log_msg_def stub_env_def
        stub_world_def autopkg_run_cmd_def name_def path_name_def stub_recipe_def
        stub_settings_def verbosity_int_def)
  from run_with_downloads [OF a b w1 ps rd c d e]
  have "fst (run ?E stub_recipe ?w) = Inr ?final"
    and "trace (snd (run ?E stub_recipe ?w))
           = trace ?w @ [RunCmd (autopkg_run_cmd stub_recipe (settings ?w) True),
                         CompileReport (self_result stub_recipe),
                         CacheSave (cache_file (settings ?w)) (name stub_recipe) stub_cache,
                         RunCmd (autopkg_run_cmd stub_recipe (settings ?w) False),
                         CompileReport (self_result stub_recipe)]"
    and "length (metadata stub_cache) = length (downloaded_items one_download)"
    by blast+
  then show ?thesis
    by (simp add: stub_world_def stub_recipe_def stub_settings_def autopkg_run_cmd_def name_def
        path_name_def path_str_def verbosity_int_def one_download_def)
qed

subsection \<open>The locator\<close>

text \<open>
  The locator in the words of its contract: the candidate file names of a name without
  a recipe extension, the matches in directory-then-candidate order over the override
  directories followed by the search directories, and the first match that exists.
\<close>

definition candidate_filenames :: "string \<Rightarrow> string list" where
  "candidate_filenames recipe_name =
     [recipe_name @ ''.recipe'', recipe_name @ ''.recipe.plist'', recipe_name @ ''.recipe.yaml'']"

definition locator_matches :: "'x env \<Rightarrow> fs \<Rightarrow> string \<Rightarrow> path list" where
  "locator_matches E f recipe_name =
     concat (map (\<lambda>d. concat (map (\<lambda>c. rglob E f (expanduser E d) c) (candidate_filenames recipe_name)))
               (recipe_override_dirs E @ recipe_search_dirs E))"

definition locate :: "'x env \<Rightarrow> string \<Rightarrow> fs \<Rightarrow> exn + path" where
  "locate E recipe_name f =
     (case find (path_exists f) (locator_matches E f recipe_name) of
        Some p \<Rightarrow> Inr p
      | None \<Rightarrow> Inl (RecipeLookupException recipe_name))"

lemma find_append_first:
  "find P (xs @ ys) = (case find P xs of Some x \<Rightarrow> Some x | None \<Rightarrow> find P ys)"
  by (induction xs) auto

lemma first_existing_find: "first_existing f ps = find (path_exists f) ps"
  by (induction ps) auto

lemma search_filenames_find:
  "search_filenames E f p names = find (path_exists f) (concat (map (rglob E f p) names))"
  by (induction names) (auto simp: find_append_first first_existing_find split: option.splits)

lemma search_lookup_dirs_find:
  "search_lookup_dirs E f dirs names =
     find (path_exists f) (concat (map (\<lambda>d. concat (map (rglob E f (expanduser E d)) names)) dirs))"
  by (induction dirs) (auto simp: find_append_first search_filenames_find split: option.splits)

text \<open>
  C6. For a name without a recipe extension, \<^verbatim>\<open>find_recipe\<close> is the locator of the
  contract. When it finds nothing it raises \<^verbatim>\<open>RecipeLookupException\<close>, and the
  constructor passes the exception on having done nothing but write a log record: no
  file was read or made, no subprocess run.
\<close>

theorem find_recipe_locates:
  assumes "\<not> has_recipe_extension recipe_name"
  shows "find_recipe E recipe_name f = locate E recipe_name f
       \<and> (locate E recipe_name (files w) = Inl (RecipeLookupException recipe_name)
            \<longrightarrow> Recipe_init E recipe_name rd w
                  = (Inl (RecipeLookupException recipe_name),
                     w\<lparr>logs := logs w @ [(EXCEPTION, ''Failed to find recipe: %s'', [recipe_name])]\<rparr>))"
proof -
  from assms have eq: "find_recipe E recipe_name f = locate E recipe_name f" for f
    by (simp add: find_recipe_def locate_def locator_matches_def candidate_filenames_def
        search_lookup_dirs_find)
  then show ?thesis
    by (simp add: Recipe_init_def log_msg_def)
qed

theorem find_recipe_locates_witness:
  "find_recipe stub_env ''Test'' stub_files = Inr [''recipes'', ''Test.recipe'']
   \<and> find_recipe stub_env ''Test'' (stub_files @ [([''overrides'', ''Test.recipe.yaml''], File [])])
       = Inr [''overrides'', ''Test.recipe.yaml'']
   \<and> Recipe_init stub_env ''Missing'' None (stub_world 0 no_downloads)
       = (Inl (RecipeLookupException ''Missing''),
          (stub_world 0 no_downloads)\<lparr>logs := [(EXCEPTION, ''Failed to find recipe: %s'', [''Missing''])]\<rparr>)"
proof -
  have t: "\<not> has_recipe_extension ''Test''" and m: "\<not> has_recipe_extension ''Missing''"
    by (simp_all add: has_recipe_extension_def endswith_def)
  have l1: "locate stub_env ''Test'' stub_files = Inr [''recipes'', ''Test.recipe'']"
    by (simp add: locate_def locator_matches_def candidate_filenames_def stub_env_def
        stub_files_def path_exists_def lookup_def path_name_def)
  have l2: "locate stub_env ''Test'' (stub_files @ [([''overrides'', ''Test.recipe.yaml''], File [])])
              = Inr [''overrides'', ''Test.recipe.yaml'']"
    by (simp add: locate_def locator_matches_def candidate_filenames_def stub_env_def
        stub_files_def path_exists_def lookup_def path_name_def)
  have l3: "locate stub_env ''Missing'' (files (stub_world 0 no_downloads))
              = Inl (RecipeLookupException ''Missing'')"
    by (simp add: locate_def locator_matches_def candidate_filenames_def stub_env_def
        stub_files_def stub_world_def path_exists_def lookup_def path_name_def)
  from find_recipe_locates [OF t, of stub_env stub_files]
    find_recipe_locates [OF t, of stub_env "stub_files @ [([''overrides'', ''Test.recipe.yaml''], File [])]"]
    find_recipe_locates [OF m, of stub_env _ "stub_world 0 no_downloads" None]
    l1 l2 l3
  show ?thesis by (simp add: stub_world_def)
qed


subsection \<open>The report path\<close>

declare mkdir.simps [simp del]











end
